theory Spec2Isabelle
  imports Main "HOL-Library.Sublist" "HOL-Library.Char_ord" "HOL-Library.List_Lexorder"
begin

section \<open>debug\_toolbar/utils.py\<close>

text \<open>
  The functions of \<^verbatim>\<open>debug_toolbar/utils.py\<close> that filter and format stack traces, sort
  request variables and cut the context window out of a template source. Python \<open>str\<close> is
  \<open>string\<close>, Python \<open>int\<close> is \<open>int\<close>, \<open>None\<close> is the \<open>None\<close> of an option type, an
  exception is the \<open>Inl\<close> of a sum type. Functions of the interpreter and of the web
  framework that the module calls (\<open>os.path.realpath\<close>, \<open>pprint.pformat\<close>, the escaping
  done by \<open>format_html\<close>, \<open>Template.get_exception_info\<close>) are parameters.
\<close>

subsection \<open>Settings and paths\<close>

text \<open>
  \<open>dt_settings.get_config()\<close> is read for \<open>ENABLE_STACKTRACES_LOCALS\<close>; the module-level
  list \<open>hidden_paths\<close> is computed once from \<open>HIDE_IN_STACKTRACES\<close>.
\<close>

record settings =
  hidden_paths :: "string list"
  ENABLE_STACKTRACES_LOCALS :: bool

text \<open>\<open>str.startswith\<close>: \<open>s.startswith(p)\<close>.\<close>

definition startswith :: "string \<Rightarrow> string \<Rightarrow> bool" where
  "startswith s p = (take (length p) s = p)"

text \<open>\<open>any(path.startswith(hidden_path) for hidden_path in hidden_paths)\<close>\<close>

definition omit_path :: "settings \<Rightarrow> string \<Rightarrow> bool" where
  "omit_path cfg path = list_ex (\<lambda>hidden_path. startswith path hidden_path) (hidden_paths cfg)"

subsection \<open>Stripping\<close>

text \<open>
  The code points that \<open>str.isspace\<close>, and with it \<open>str.strip()\<close>, takes for whitespace:
  tab to carriage return, the separators \<open>0x1c\<close> to \<open>0x1f\<close>, the space, next line
  \<open>0x85\<close>, the no-break space \<open>0xa0\<close>, and the Unicode spaces and line separators above
  them.
\<close>

definition isspace_code_point :: "nat \<Rightarrow> bool" where
  "isspace_code_point n =
     ((9 \<le> n \<and> n \<le> 13) \<or> (28 \<le> n \<and> n \<le> 32) \<or> n = 0x85 \<or> n = 0xA0
      \<or> n = 0x1680 \<or> (0x2000 \<le> n \<and> n \<le> 0x200A) \<or> n = 0x2028 \<or> n = 0x2029
      \<or> n = 0x202F \<or> n = 0x205F \<or> n = 0x3000)"

text \<open>
  A \<open>char\<close> of a \<open>string\<close> is the character with that code point, so the strings of the
  model are the Python strings of code points below 256; on them the whitespace is
  \<open>0x09\<close> to \<open>0x0d\<close>, \<open>0x1c\<close> to \<open>0x20\<close>, \<open>0x85\<close> and \<open>0xa0\<close>.
\<close>

definition isspace :: "char \<Rightarrow> bool" where
  "isspace c = isspace_code_point (of_char c)"

text \<open>\<open>str.strip()\<close>: leading and trailing whitespace removed.\<close>

definition strip :: "string \<Rightarrow> string" where
  "strip s = rev (dropWhile isspace (rev (dropWhile isspace s)))"

subsection \<open>tidy\_stacktrace\<close>

text \<open>
  One record of \<open>get_stack()\<close>: the frame object (of which the code reads \<open>f_locals\<close>),
  the file name, the line number, the function name, the lines of context (\<open>None\<close> when
  the source was not found) and the index in them. \<open>f[:5]\<close> drops the index.
\<close>

record 'l frame_record =
  f_locals :: 'l
  fr_path :: string
  fr_line_no :: int
  fr_func_name :: string
  fr_text :: "string list option"
  fr_index :: "int option"

text \<open>An entry of the trace: \<open>(path, line_no, func_name, text, frame_locals)\<close>.\<close>

type_synonym 'l trace_entry = "string \<times> int \<times> string \<times> string \<times> 'l option"

text \<open>\<open>"".join(text).strip() if text else ""\<close>: \<open>None\<close> and the empty list are falsy.\<close>

definition tidy_text :: "string list option \<Rightarrow> string" where
  "tidy_text text =
     (case text of
        None \<Rightarrow> ''''
      | Some ls \<Rightarrow> if ls = [] then '''' else strip (concat ls))"

text \<open>
  The body of the \<open>for\<close> loop, with \<open>trace\<close> as the accumulator; \<open>continue\<close> leaves it
  unchanged.
\<close>

fun tidy_loop ::
  "settings \<Rightarrow> (string \<Rightarrow> string) \<Rightarrow> 'l frame_record list \<Rightarrow> 'l trace_entry list
     \<Rightarrow> 'l trace_entry list" where
  "tidy_loop cfg realpath [] trace = trace"
| "tidy_loop cfg realpath (f # stack) trace =
     (if omit_path cfg (realpath (fr_path f)) then tidy_loop cfg realpath stack trace
      else
        let text = tidy_text (fr_text f);
            frame_locals = (if ENABLE_STACKTRACES_LOCALS cfg then Some (f_locals f) else None)
        in tidy_loop cfg realpath stack
             (trace @ [(fr_path f, fr_line_no f, fr_func_name f, text, frame_locals)]))"

definition tidy_stacktrace ::
  "settings \<Rightarrow> (string \<Rightarrow> string) \<Rightarrow> 'l frame_record list \<Rightarrow> 'l trace_entry list" where
  "tidy_stacktrace cfg realpath stack = tidy_loop cfg realpath stack []"

subsection \<open>get\_template\_context\<close>

text \<open>
  The dictionary returned by \<open>Template.get_exception_info\<close>, of which the code reads
  \<open>line\<close>, \<open>source_lines\<close> (pairs of a line number and the line) and \<open>name\<close>.
\<close>

record exception_info =
  ei_line :: int
  ei_source_lines :: "(int \<times> string) list"
  ei_name :: string

record ('o, 'k) node =
  nd_origin :: 'o
  nd_token :: 'k

text \<open>
  A context holds its template and the template of its render context; a template is
  read through its origin and its \<open>get_exception_info\<close>.
\<close>

record ('o, 'k) template =
  tp_origin :: 'o
  get_exception_info :: "'k \<Rightarrow> exception_info"

record ('o, 'k) context_obj =
  cx_template :: "('o, 'k) template"
  cx_render_context_template :: "('o, 'k) template"

definition get_template_source_from_exception_info ::
  "('o, 'k) node \<Rightarrow> ('o, 'k) context_obj \<Rightarrow> int \<times> (int \<times> string) list \<times> string" where
  "get_template_source_from_exception_info node context =
     (let exception_info =
            (if tp_origin (cx_template context) = nd_origin node
             then get_exception_info (cx_template context) (nd_token node)
             else get_exception_info (cx_render_context_template context) (nd_token node))
      in (ei_line exception_info, ei_source_lines exception_info, ei_name exception_info))"

record debug_line =
  num :: int
  content :: string
  highlight :: bool

record template_context =
  tc_name :: string
  tc_context :: "debug_line list"

fun context_loop :: "int \<Rightarrow> int \<Rightarrow> int \<Rightarrow> (int \<times> string) list \<Rightarrow> debug_line list \<Rightarrow> debug_line list" where
  "context_loop line start end' [] debug_context = debug_context"
| "context_loop line start end' ((line_num, content') # source_lines) debug_context =
     (if start \<le> line_num \<and> line_num \<le> end'
      then context_loop line start end' source_lines
             (debug_context @ [\<lparr>num = line_num, content = content', highlight = (line_num = line)\<rparr>])
      else context_loop line start end' source_lines debug_context)"

definition get_template_context ::
  "('o, 'k) node \<Rightarrow> ('o, 'k) context_obj \<Rightarrow> int \<Rightarrow> template_context" where
  "get_template_context node context context_lines =
     (case get_template_source_from_exception_info node context of
        (line, source_lines, name) \<Rightarrow>
          let start = max 1 (line - context_lines);
              end' = line + 1 + context_lines
          in \<lparr>tc_name = name, tc_context = context_loop line start end' source_lines []\<rparr>)"

text \<open>The default of the parameter \<open>context_lines\<close>.\<close>

definition context_lines_default :: int where
  "context_lines_default = 3"

subsection \<open>render\_stacktrace\<close>

datatype error = ValueError | AttributeError

text \<open>
  What \<open>render_stacktrace\<close> takes from outside the module: the separator \<open>os.path.sep\<close>,
  the escaping that \<open>format_html\<close> applies to each of its arguments
  (\<open>conditional_escape\<close>, on a plain \<open>str\<close>), \<open>str\<close> on an \<open>int\<close>, and \<open>pprint.pformat\<close>.
\<close>

record 'l lib =
  os_path_sep :: char
  conditional_escape :: "string \<Rightarrow> string"
  str_of_int :: "int \<Rightarrow> string"
  pformat :: "'l option \<Rightarrow> string"

text \<open>
  \<open>s.rsplit(sep, 1)\<close>: the list of the part before the last separator and the part after
  it, or the list of \<open>s\<close> alone when \<open>s\<close> holds no separator.
\<close>

definition after_last :: "char \<Rightarrow> string \<Rightarrow> string" where
  "after_last sep s = rev (takeWhile (\<lambda>c. c \<noteq> sep) (rev s))"

definition before_last :: "char \<Rightarrow> string \<Rightarrow> string" where
  "before_last sep s = rev (drop (Suc (length (after_last sep s))) (rev s))"

definition rsplit1 :: "char \<Rightarrow> string \<Rightarrow> string list" where
  "rsplit1 sep s =
     (if sep \<in> set s then [before_last sep s, after_last sep s] else [s])"

text \<open>A string marked safe by \<open>mark_safe\<close>.\<close>

datatype safe_string = SafeString string

text \<open>The first \<open>format_html\<close> call: every argument escaped, then put into the format.\<close>

definition format_frame :: "'l lib \<Rightarrow> string \<Rightarrow> string \<Rightarrow> string \<Rightarrow> int \<Rightarrow> string \<Rightarrow> string" where
  \<open>format_frame lib directory filename func lineno code =
     ''<span class="djdt-path">'' @ conditional_escape lib directory @ ''/</span>''
     @ ''<span class="djdt-file">'' @ conditional_escape lib filename @ ''</span> in''
     @ '' <span class="djdt-func">'' @ conditional_escape lib func @ ''</span>''
     @ ''(<span class="djdt-lineno">'' @ conditional_escape lib (str_of_int lib lineno)
     @ ''</span>)\<newline>''
     @ ''  <span class="djdt-code">'' @ conditional_escape lib code @ ''</span>\<newline>''\<close>

text \<open>The second \<open>format_html\<close> call.\<close>

definition format_locals :: "'l lib \<Rightarrow> 'l option \<Rightarrow> string" where
  \<open>format_locals lib locals' =
     ''  <pre class="djdt-locals">'' @ conditional_escape lib (pformat lib locals')
     @ ''</pre>\<newline>''\<close>

text \<open>
  The \<open>for\<close> loop with \<open>html\<close> as the accumulator. Unpacking the result of \<open>rsplit\<close> into
  \<open>directory, filename\<close> raises \<open>ValueError\<close> unless it has two elements.
\<close>

fun render_loop ::
  "'l lib \<Rightarrow> bool \<Rightarrow> 'l trace_entry list \<Rightarrow> string \<Rightarrow> error + string" where
  "render_loop lib show_locals [] html = Inr html"
| "render_loop lib show_locals ((abspath, lineno, func, code, locals') # trace) html =
     (case rsplit1 (os_path_sep lib) abspath of
        [directory, filename] \<Rightarrow>
          let html = html @ format_frame lib directory filename func lineno code;
              html = (if show_locals then html @ format_locals lib locals' else html);
              html = html @ ''\<newline>''
          in render_loop lib show_locals trace html
      | _ \<Rightarrow> Inl ValueError)"

definition render_stacktrace ::
  "settings \<Rightarrow> 'l lib \<Rightarrow> 'l trace_entry list \<Rightarrow> error + safe_string" where
  "render_stacktrace cfg lib trace =
     (let show_locals = ENABLE_STACKTRACES_LOCALS cfg
      in case render_loop lib show_locals trace [] of
           Inl e \<Rightarrow> Inl e
         | Inr html \<Rightarrow> Inr (SafeString html))"

subsection \<open>get\_sorted\_request\_variable\<close>

text \<open>
  The objects the function is given, each with its class:
  \<^item> a plain \<open>dict\<close>, as the list of its items in iteration order;
  \<^item> a \<open>QueryDict\<close> (\<open>request.GET\<close>, \<open>request.POST\<close>) or another \<open>MultiValueDict\<close> of the
    framework, as the list of its keys with the list of values of each; the class is a
    subclass of \<open>dict\<close>;
  \<^item> an object that is no \<open>dict\<close>, iterated for its keys, with a method \<open>getlist\<close>;
  \<^item> an object that is no \<open>dict\<close>, iterated for its keys, without such a method.
\<close>

datatype ('k, 'v) request_variable =
  Dict "('k \<times> 'v) list"
| QueryDict "('k \<times> 'v list) list"
| MultiValue "'k list" "'k \<Rightarrow> 'v list"
| Iterable "'k list"

text \<open>\<open>isinstance(variable, dict)\<close>: true of a \<open>dict\<close> and of every subclass.\<close>

fun isinstance_dict :: "('k, 'v) request_variable \<Rightarrow> bool" where
  "isinstance_dict (Dict items) = True"
| "isinstance_dict (QueryDict entries) = True"
| "isinstance_dict (MultiValue keys getlist) = False"
| "isinstance_dict (Iterable keys) = False"

text \<open>The keys that iterating over the object yields.\<close>

fun iter_keys :: "('k, 'v) request_variable \<Rightarrow> 'k list" where
  "iter_keys (Dict items) = map fst items"
| "iter_keys (QueryDict entries) = map fst entries"
| "iter_keys (MultiValue keys getlist) = keys"
| "iter_keys (Iterable keys) = keys"

text \<open>
  The attribute \<open>variable.get\<close>, \<open>None\<close> where the object has none. \<open>dict.get(k)\<close> is the
  value of the key, \<open>None\<close> for an absent key; \<open>MultiValueDict.get(k)\<close> is the last value
  of the list of the key, \<open>None\<close> for an absent key or an empty list.
\<close>

fun attr_get :: "('k, 'v) request_variable \<Rightarrow> ('k \<Rightarrow> 'v option) option" where
  "attr_get (Dict items) = Some (map_of items)"
| "attr_get (QueryDict entries) =
     Some (\<lambda>k. case map_of entries k of
                  None \<Rightarrow> None
                | Some vs \<Rightarrow> if vs = [] then None else Some (last vs))"
| "attr_get (MultiValue keys getlist) = None"
| "attr_get (Iterable keys) = None"

text \<open>
  The attribute \<open>variable.getlist\<close>, \<open>None\<close> where the object has none.
  \<open>MultiValueDict.getlist(k)\<close> is the list of the values of the key, empty for an absent
  key.
\<close>

fun attr_getlist :: "('k, 'v) request_variable \<Rightarrow> ('k \<Rightarrow> 'v list) option" where
  "attr_getlist (Dict items) = None"
| "attr_getlist (QueryDict entries) =
     Some (\<lambda>k. case map_of entries k of None \<Rightarrow> [] | Some vs \<Rightarrow> vs)"
| "attr_getlist (MultiValue keys getlist) = Some getlist"
| "attr_getlist (Iterable keys) = None"

text \<open>A value of a returned pair: what \<open>get\<close> gave, or what \<open>getlist\<close> gave.\<close>

datatype 'v variable_value = Value "'v option" | ValueList "'v list"

text \<open>
  The two comprehensions run over \<open>sorted(variable)\<close>; the attribute is looked up for
  each key, so an object without it raises \<open>AttributeError\<close> at the first key.
\<close>

definition get_sorted_request_variable ::
  "('k::linorder, 'v) request_variable \<Rightarrow> error + ('k \<times> 'v variable_value) list" where
  "get_sorted_request_variable variable =
     (if isinstance_dict variable
      then (case attr_get variable of
              Some get \<Rightarrow> Inr (map (\<lambda>k. (k, Value (get k))) (sort (iter_keys variable)))
            | None \<Rightarrow>
                if sort (iter_keys variable) = [] then Inr [] else Inl AttributeError)
      else (case attr_getlist variable of
              Some getlist \<Rightarrow>
                Inr (map (\<lambda>k. (k, ValueList (getlist k))) (sort (iter_keys variable)))
            | None \<Rightarrow>
                if sort (iter_keys variable) = [] then Inr [] else Inl AttributeError))"

section \<open>Properties\<close>

subsection \<open>Hidden paths\<close>

lemma startswith_prefix: "startswith s p \<longleftrightarrow> prefix p s"
  by (auto simp: startswith_def prefix_def) (metis append_take_drop_id)

lemma omit_path_iff:
  "omit_path cfg path \<longleftrightarrow> (\<exists>hidden_path \<in> set (hidden_paths cfg). prefix hidden_path path)"
  by (simp add: omit_path_def list_ex_iff startswith_prefix)

subsection \<open>Stripping\<close>

text \<open>
  \<open>strip\<close> cuts a run of whitespace from each end and nothing else, and what is left
  neither starts nor ends with whitespace.
\<close>

text \<open>
  On the characters of the model, \<open>isspace\<close> is the whitespace of code points below 256;
  a no-break space in front and a next-line character behind are stripped.
\<close>

lemma isspace_char_iff:
  "isspace c \<longleftrightarrow>
     (9 \<le> (of_char c :: nat) \<and> (of_char c :: nat) \<le> 13)
     \<or> (28 \<le> (of_char c :: nat) \<and> (of_char c :: nat) \<le> 32)
     \<or> (of_char c :: nat) = 0x85 \<or> (of_char c :: nat) = 0xA0"
proof -
  define n :: nat where "n = of_char c"
  have "(of_char c :: nat) mod 256 = of_char c" by (rule of_char_mod_256)
  then have "n mod 256 = n" by (simp only: n_def)
  then have "n < 256" by (metis mod_less_divisor zero_less_numeral)
  then have "isspace_code_point n \<longleftrightarrow>
      (9 \<le> n \<and> n \<le> 13) \<or> (28 \<le> n \<and> n \<le> 32) \<or> n = 0x85 \<or> n = 0xA0"
    unfolding isspace_code_point_def by arith
  then show ?thesis by (simp only: isspace_def n_def)
qed

lemma strip_no_break_space:
  "strip (CHR 0xA0 # ''x = 1'' @ [CHR 0x85, CHR ''\<newline>'']) = ''x = 1''"
  by (simp add: strip_def isspace_def isspace_code_point_def)

lemma strip_suffix_part:
  "dropWhile isspace s = strip s @ rev (takeWhile isspace (rev (dropWhile isspace s)))"
proof -
  let ?t = "dropWhile isspace s"
  have "takeWhile isspace (rev ?t) @ dropWhile isspace (rev ?t) = rev ?t"
    by (rule takeWhile_dropWhile_id)
  then have "rev (takeWhile isspace (rev ?t) @ dropWhile isspace (rev ?t)) = rev (rev ?t)"
    by (simp only:)
  then have "rev (dropWhile isspace (rev ?t)) @ rev (takeWhile isspace (rev ?t)) = ?t"
    by (simp only: rev_append rev_rev_ident)
  then show ?thesis by (simp only: strip_def)
qed

lemma strip_decomp:
  "\<exists>a b. s = a @ strip s @ b \<and> list_all isspace a \<and> list_all isspace b"
proof -
  let ?a = "takeWhile isspace s"
  let ?b = "rev (takeWhile isspace (rev (dropWhile isspace s)))"
  have "s = ?a @ dropWhile isspace s" by simp
  with strip_suffix_part [of s] have "s = ?a @ strip s @ ?b" by simp
  moreover have "list_all isspace ?a" by (auto simp: list_all_iff dest: set_takeWhileD)
  moreover have "list_all isspace ?b" by (auto simp: list_all_iff dest: set_takeWhileD)
  ultimately show ?thesis by blast
qed

lemma strip_ends:
  assumes "strip s \<noteq> []"
  shows "\<not> isspace (hd (strip s))" and "\<not> isspace (last (strip s))"
proof -
  let ?t = "dropWhile isspace s"
  let ?u = "dropWhile isspace (rev ?t)"
  from assms have u: "?u \<noteq> []" by (simp add: strip_def)
  then have "\<not> isspace (hd ?u)" by (rule hd_dropWhile)
  then show "\<not> isspace (last (strip s))" using u by (simp add: strip_def last_rev)
  have t: "?t \<noteq> []"
  proof
    assume "?t = []"
    then have "?u = []" by (simp only: rev.simps dropWhile.simps)
    with u show False ..
  qed
  then have nt: "\<not> isspace (hd ?t)" by (rule hd_dropWhile)
  from strip_suffix_part [of s] assms have "hd ?t = hd (strip s)"
    by (metis hd_append2)
  with nt show "\<not> isspace (hd (strip s))" by simp
qed

subsection \<open>tidy\_stacktrace\<close>

lemma tidy_loop_append:
  "tidy_loop cfg realpath stack trace =
     trace @ map (\<lambda>f. (fr_path f, fr_line_no f, fr_func_name f, tidy_text (fr_text f),
                        if ENABLE_STACKTRACES_LOCALS cfg then Some (f_locals f) else None))
               (filter (\<lambda>f. \<not> omit_path cfg (realpath (fr_path f))) stack)"
  by (induction stack arbitrary: trace) (simp_all add: Let_def)

text \<open>
  A last frame outside the hidden paths stays: it is the last entry of the result.
\<close>

lemma tidy_stacktrace_last:
  assumes "stack \<noteq> []" and "\<not> omit_path cfg (realpath (fr_path (last stack)))"
  shows "tidy_stacktrace cfg realpath stack \<noteq> []"
    and "fst (last (tidy_stacktrace cfg realpath stack)) = fr_path (last stack)"
proof -
  from assms(1) obtain fs f where s: "stack = fs @ [f]" by (metis append_butlast_last_id)
  with assms(2) have "\<not> omit_path cfg (realpath (fr_path f))" by simp
  then show "tidy_stacktrace cfg realpath stack \<noteq> []"
    and "fst (last (tidy_stacktrace cfg realpath stack)) = fr_path (last stack)"
    by (simp_all add: tidy_stacktrace_def tidy_loop_append s)
qed

text \<open>
  C1: for every stack, \<open>tidy_stacktrace\<close> returns, in the order of the stack, exactly the
  entries whose real path starts with none of the hidden paths; each returned entry is
  the tuple of the path, the line number, the function name, the joined and stripped
  text (the empty string when the text is \<open>None\<close> or empty), and the frame's locals when
  \<open>ENABLE_STACKTRACES_LOCALS\<close> is set, \<open>None\<close> otherwise.
\<close>

theorem tidy_stacktrace_filters_and_formats:
  "tidy_stacktrace cfg realpath stack =
     map (\<lambda>f. (fr_path f, fr_line_no f, fr_func_name f,
                (case fr_text f of
                   None \<Rightarrow> []
                 | Some ls \<Rightarrow> if ls = [] then [] else strip (concat ls)),
                if ENABLE_STACKTRACES_LOCALS cfg then Some (f_locals f) else None))
         (filter (\<lambda>f. \<forall>hidden_path \<in> set (hidden_paths cfg).
                         \<not> prefix hidden_path (realpath (fr_path f)))
                 stack)"
  by (simp add: tidy_stacktrace_def tidy_loop_append omit_path_iff tidy_text_def)

theorem tidy_stacktrace_filters_and_formats_witness:
  "tidy_stacktrace \<lparr>hidden_paths = [''/lib/django'', ''/lib/socketserver.py''],
                     ENABLE_STACKTRACES_LOCALS = True\<rparr> (\<lambda>p. p)
     [\<lparr>f_locals = (1::nat), fr_path = ''/app/views.py'', fr_line_no = 10,
       fr_func_name = ''index'',
       fr_text = Some [CHR 0xA0 # ''  return x'', [CHR 0x85, CHR ''\<newline>'']],
       fr_index = Some 0\<rparr>,
      \<lparr>f_locals = 2, fr_path = ''/lib/django/core.py'', fr_line_no = 20,
       fr_func_name = ''get_response'', fr_text = Some ['' y = 1''], fr_index = Some 0\<rparr>,
      \<lparr>f_locals = 3, fr_path = ''<string>'', fr_line_no = 1,
       fr_func_name = ''<module>'', fr_text = None, fr_index = None\<rparr>]
   = [(''/app/views.py'', 10, ''index'', ''return x'', Some 1),
      (''<string>'', 1, ''<module>'', [], Some 3)]"
  by (simp add: tidy_stacktrace_filters_and_formats strip_def isspace_def isspace_code_point_def)

text \<open>
  C3: the docstring of \<open>tidy_stacktrace\<close> says that the last entry of the stack is
  removed. The loop removes hidden paths only: on a stack of two frames outside the
  hidden paths, the last frame is the last entry of the returned trace.
\<close>

theorem tidy_stacktrace_keeps_last_entry:
  "tidy_stacktrace \<lparr>hidden_paths = [''/lib/django''], ENABLE_STACKTRACES_LOCALS = False\<rparr>
     (\<lambda>p. p)
     [\<lparr>f_locals = (1::nat), fr_path = ''/app/views.py'', fr_line_no = 10,
       fr_func_name = ''index'', fr_text = Some [''return x''], fr_index = Some 0\<rparr>,
      \<lparr>f_locals = 2, fr_path = ''/app/tracking.py'', fr_line_no = 7,
       fr_func_name = ''record'', fr_text = Some [''get_stack()''], fr_index = Some 0\<rparr>]
   = [(''/app/views.py'', 10, ''index'', ''return x'', None),
      (''/app/tracking.py'', 7, ''record'', ''get_stack()'', None)]"
  by (simp add: tidy_stacktrace_def omit_path_def startswith_def tidy_text_def strip_def
      isspace_def isspace_code_point_def)

subsection \<open>render\_stacktrace\<close>

lemma rsplit1_parts:
  assumes "sep \<in> set s"
  shows "s = before_last sep s @ sep # after_last sep s" and "sep \<notin> set (after_last sep s)"
proof -
  let ?t = "takeWhile (\<lambda>c. c \<noteq> sep) (rev s)"
  let ?d = "dropWhile (\<lambda>c. c \<noteq> sep) (rev s)"
  from assms have "?d \<noteq> []" by (simp add: dropWhile_eq_Nil_conv)
  moreover have "hd ?d = sep"
    using \<open>?d \<noteq> []\<close> hd_dropWhile [of "\<lambda>c. c \<noteq> sep" "rev s"] by simp
  ultimately have d: "?d = sep # tl ?d" by (metis list.collapse)
  have "drop (Suc (length ?t)) (rev s) = tl ?d"
    by (simp add: dropWhile_eq_drop drop_Suc tl_drop)
  moreover have "rev s = ?t @ sep # tl ?d"
    using d takeWhile_dropWhile_id [of "\<lambda>c. c \<noteq> sep" "rev s"] by simp
  ultimately have "rev s = ?t @ sep # drop (Suc (length ?t)) (rev s)" by simp
  then have "rev (rev s) = rev (?t @ sep # drop (Suc (length ?t)) (rev s))" by simp
  then show "s = before_last sep s @ sep # after_last sep s"
    by (simp add: before_last_def after_last_def)
  show "sep \<notin> set (after_last sep s)"
    using set_takeWhileD [of sep "\<lambda>c. c \<noteq> sep" "rev s"] by (auto simp: after_last_def)
qed

lemma render_loop_append:
  assumes "\<forall>entry \<in> set trace. os_path_sep lib \<in> set (fst entry)"
  shows "render_loop lib show_locals trace html =
     Inr (html @ concat (map (\<lambda>(abspath, lineno, func, code, locals').
             format_frame lib (before_last (os_path_sep lib) abspath)
               (after_last (os_path_sep lib) abspath) func lineno code
             @ (if show_locals then format_locals lib locals' else [])
             @ ''\<newline>'') trace))"
  using assms
  by (induction lib show_locals trace html rule: render_loop.induct)
     (simp_all add: rsplit1_def Let_def)

text \<open>
  On a trace whose paths all hold the separator, \<open>render_stacktrace\<close> returns the blocks
  of the entries in order, each with its locals when \<open>ENABLE_STACKTRACES_LOCALS\<close> is set.
\<close>

lemma render_stacktrace_blocks:
  assumes "\<forall>entry \<in> set trace. os_path_sep lib \<in> set (fst entry)"
  shows "render_stacktrace cfg lib trace =
     Inr (SafeString (concat (map (\<lambda>(abspath, lineno, func, code, locals').
             format_frame lib (before_last (os_path_sep lib) abspath)
               (after_last (os_path_sep lib) abspath) func lineno code
             @ (if ENABLE_STACKTRACES_LOCALS cfg then format_locals lib locals' else [])
             @ ''\<newline>'') trace)))"
  using render_loop_append [OF assms, of "ENABLE_STACKTRACES_LOCALS cfg" "[]"]
  by (simp add: render_stacktrace_def)

text \<open>
  C4: \<open>render_stacktrace\<close> is to return the rendered blocks for every trace. A frame of a
  frozen module has a file name without a separator; \<open>tidy_stacktrace\<close> passes it on
  unchanged, and unpacking the result of \<open>rsplit\<close> raises \<open>ValueError\<close>.
\<close>

theorem render_stacktrace_no_separator:
  "render_stacktrace cfg (lib\<lparr>os_path_sep := CHR ''/''\<rparr>)
     [(''<frozen importlib._bootstrap>'', 219, ''_call_with_frames_removed'', [], None)]
   = Inl ValueError"
  by (simp add: render_stacktrace_def rsplit1_def)

subsection \<open>get\_sorted\_request\_variable\<close>

lemma sort_distinct_keys:
  "distinct ks \<Longrightarrow> sort ks = sorted_list_of_set (set ks)"
  by (simp add: sorted_list_of_set_sort_remdups distinct_remdups_id)

text \<open>
  A plain dict: the keys of the returned pairs are exactly the keys of the dict in
  ascending order, each with the value the dict holds for it.
\<close>

lemma get_sorted_request_variable_dict:
  assumes "distinct (map fst items)"
  shows "\<exists>pairs. get_sorted_request_variable (Dict items) = Inr pairs
       \<and> map fst pairs = sorted_list_of_set (fst ` set items)
       \<and> (\<forall>(k, x) \<in> set pairs. \<exists>v. (k, v) \<in> set items \<and> x = Value (Some v))"
proof -
  let ?pairs = "map (\<lambda>k. (k, Value (map_of items k))) (sort (map fst items))"
  have r: "get_sorted_request_variable (Dict items) = Inr ?pairs"
    by (simp add: get_sorted_request_variable_def)
  have keys: "map fst ?pairs = sorted_list_of_set (fst ` set items)"
    using assms sort_distinct_keys [of "map fst items"] by (simp add: comp_def)
  have vals: "\<forall>(k, x) \<in> set ?pairs. \<exists>v. (k, v) \<in> set items \<and> x = Value (Some v)"
    using assms by (auto simp: map_of_eq_Some_iff)
  from r keys vals show ?thesis by blast
qed

text \<open>An object that is no dict and has \<open>getlist\<close>: the sorted keys, each with its list.\<close>

lemma get_sorted_request_variable_multi_value:
  "get_sorted_request_variable (MultiValue keys getlist) =
     Inr (map (\<lambda>k. (k, ValueList (getlist k))) (sort keys))"
  by (simp add: get_sorted_request_variable_def)

text \<open>An object that is no dict and has no \<open>getlist\<close>: the error, unless it has no key.\<close>

lemma get_sorted_request_variable_iterable:
  "get_sorted_request_variable (Iterable keys) =
     (if keys = [] then Inr [] else Inl AttributeError)"
proof -
  have "sort keys = [] \<longleftrightarrow> keys = []"
    by (metis length_0_conv length_sort)
  then show ?thesis by (simp add: get_sorted_request_variable_def)
qed

text \<open>
  A \<open>QueryDict\<close> is an instance of \<open>dict\<close>, so it takes the first branch: every key comes
  with the last of its values, and \<open>getlist\<close> is not asked.
\<close>

lemma get_sorted_request_variable_query_dict:
  "get_sorted_request_variable (QueryDict entries) =
     Inr (map (\<lambda>k. (k, Value (case map_of entries k of
                                  None \<Rightarrow> None
                                | Some vs \<Rightarrow> if vs = [] then None else Some (last vs))))
            (sort (map fst entries)))"
  by (simp add: get_sorted_request_variable_def)

lemma get_sorted_request_variable_example:
  "get_sorted_request_variable (Dict [(''foo'', ''bar''), (''csrf'', ''x''), (''page'', ''2'')])
   = Inr [(''csrf'', Value (Some ''x'')), (''foo'', Value (Some ''bar'')),
          (''page'', Value (Some ''2''))]"
  by code_simp

text \<open>
  C9: a dict is to give its sorted keys with the value of each, a multi-valued input
  like a \<open>QueryDict\<close> its sorted keys with \<open>getlist(key)\<close> of each. The \<open>QueryDict\<close> of
  the query string \<open>b=3&a=1&a=2\<close> passes the test \<open>isinstance(variable, dict)\<close>, and the
  key \<open>a\<close> comes with the one value \<open>2\<close> instead of the list of \<open>1\<close> and \<open>2\<close>.
\<close>

theorem get_sorted_request_variable_query_dict_last_value:
  "get_sorted_request_variable (QueryDict [(''b'', [''3'']), (''a'', [''1'', ''2''])])
   = Inr [(''a'', Value (Some ''2'')), (''b'', Value (Some ''3''))]"
  by code_simp

subsection \<open>get\_template\_context\<close>

lemma context_loop_append:
  "context_loop line start end' source_lines debug_context =
     debug_context
     @ map (\<lambda>(n, c). \<lparr>num = n, content = c, highlight = (n = line)\<rparr>)
         (filter (\<lambda>(n, c). start \<le> n \<and> n \<le> end') source_lines)"
  by (induction line start end' source_lines debug_context rule: context_loop.induct) simp_all

text \<open>
  C10: when the template source resolves to the highlighted line \<open>L\<close> and the numbered
  lines \<open>source_lines\<close>, \<open>get_template_context\<close> with the default \<open>context_lines\<close> returns as
  context exactly the lines whose number \<open>n\<close> has \<open>max 1 (L - 3) \<le> n \<le> L + 4\<close>, in source
  order, each highlighted if and only if \<open>n = L\<close>.
\<close>

theorem get_template_context_window:
  assumes "get_template_source_from_exception_info node context = (L, source_lines, name)"
  shows "tc_context (get_template_context node context context_lines_default) =
     map (\<lambda>(n, c). \<lparr>num = n, content = c, highlight = (n = L)\<rparr>)
       (filter (\<lambda>(n, c). max 1 (L - 3) \<le> n \<and> n \<le> L + 4) source_lines)"
  using assms
  by (simp add: get_template_context_def context_lines_default_def context_loop_append
      add.commute)

theorem get_template_context_window_witness:
  "get_template_source_from_exception_info
      \<lparr>nd_origin = ''base.html'', nd_token = (7::nat)\<rparr>
      \<lparr>cx_template = \<lparr>tp_origin = ''base.html'', get_exception_info = (\<lambda>t.
          \<lparr>ei_line = 2, ei_source_lines = [(1, ''a''), (2, ''b''), (3, ''c''), (4, ''d''),
             (5, ''e''), (6, ''f''), (7, ''g''), (8, ''h'')], ei_name = ''base.html''\<rparr>)\<rparr>,
        cx_render_context_template = \<lparr>tp_origin = ''other.html'', get_exception_info = (\<lambda>t.
          \<lparr>ei_line = 1, ei_source_lines = [], ei_name = ''other.html''\<rparr>)\<rparr>\<rparr>
     = (2, [(1, ''a''), (2, ''b''), (3, ''c''), (4, ''d''),
             (5, ''e''), (6, ''f''), (7, ''g''), (8, ''h'')], ''base.html'')
   \<and> tc_context (get_template_context
      \<lparr>nd_origin = ''base.html'', nd_token = (7::nat)\<rparr>
      \<lparr>cx_template = \<lparr>tp_origin = ''base.html'', get_exception_info = (\<lambda>t.
          \<lparr>ei_line = 2, ei_source_lines = [(1, ''a''), (2, ''b''), (3, ''c''), (4, ''d''),
             (5, ''e''), (6, ''f''), (7, ''g''), (8, ''h'')], ei_name = ''base.html''\<rparr>)\<rparr>,
        cx_render_context_template = \<lparr>tp_origin = ''other.html'', get_exception_info = (\<lambda>t.
          \<lparr>ei_line = 1, ei_source_lines = [], ei_name = ''other.html''\<rparr>)\<rparr>\<rparr>
      context_lines_default)
     = [\<lparr>num = 1, content = ''a'', highlight = False\<rparr>,
        \<lparr>num = 2, content = ''b'', highlight = True\<rparr>,
        \<lparr>num = 3, content = ''c'', highlight = False\<rparr>,
        \<lparr>num = 4, content = ''d'', highlight = False\<rparr>,
        \<lparr>num = 5, content = ''e'', highlight = False\<rparr>,
        \<lparr>num = 6, content = ''f'', highlight = False\<rparr>]"
proof -
  let ?node = "\<lparr>nd_origin = ''base.html'', nd_token = (7::nat)\<rparr>"
  let ?src = "[(1::int, ''a''), (2, ''b''), (3, ''c''), (4, ''d''),
             (5, ''e''), (6, ''f''), (7, ''g''), (8, ''h'')]"
  let ?ctx = "\<lparr>cx_template = \<lparr>tp_origin = ''base.html'', get_exception_info = (\<lambda>t::nat.
          \<lparr>ei_line = 2, ei_source_lines = ?src, ei_name = ''base.html''\<rparr>)\<rparr>,
        cx_render_context_template = \<lparr>tp_origin = ''other.html'', get_exception_info = (\<lambda>t.
          \<lparr>ei_line = 1, ei_source_lines = [], ei_name = ''other.html''\<rparr>)\<rparr>\<rparr>"
  have h: "get_template_source_from_exception_info ?node ?ctx = (2, ?src, ''base.html'')"
    by (simp add: get_template_source_from_exception_info_def)
  from get_template_context_window [OF h] h show ?thesis by simp
qed

end
